theory Spec2Isabelle
  imports
    Main
    "HOL-Library.Char_ord"
    "HOL-Library.List_Lexorder"
    "HOL-Library.Sublist"
    "HOL-Library.AList"
begin

section \<open>Python values used by the address book\<close>

text \<open>
  The program of \<^verbatim>\<open>project-main.py\<close> is a contact manager: validated fields
  (\<^verbatim>\<open>Phone\<close>, \<^verbatim>\<open>Email\<close>, \<^verbatim>\<open>Address\<close>, \<^verbatim>\<open>Birthday\<close>), a \<^verbatim>\<open>Record\<close> of them and an
  \<^verbatim>\<open>AddressBook\<close> (a \<^verbatim>\<open>UserDict\<close>) of records.

  A Python \<^verbatim>\<open>str\<close> is a sequence of code points. It is modelled as a \<open>string\<close> whose
  every \<open>char\<close> is one code point in the range U+0000 .. U+00FF, so \<open>length\<close> counts
  what Python's \<^verbatim>\<open>len\<close> counts. The classifications below are those of CPython's
  Unicode database restricted to that range.

  Exceptions are values: \<open>Inl\<close> of an \<open>error\<close> that carries the exception's message.
\<close>

datatype error =
    ValueError string
  | KeyError string
  | IndexError string
  | OverflowError string

subsection \<open>\<^verbatim>\<open>str\<close> methods\<close>

definition ascii_digit :: "char \<Rightarrow> bool" where
  "ascii_digit c = (let n = (of_char c :: nat) in 48 \<le> n \<and> n \<le> 57)"

text \<open>\<^verbatim>\<open>str.isdigit\<close>: the characters of Numeric_Type Decimal or Digit. Below U+0100 these
  are \<^verbatim>\<open>0\<close> .. \<^verbatim>\<open>9\<close> and the superscripts U+00B2, U+00B3 and U+00B9. The digits of other
  scripts, such as U+0660, are digits for \<^verbatim>\<open>str.isdigit\<close> as well; they lie above U+00FF
  and outside the strings of this model, so nothing here says that a string is
  refused because of the alphabet it is written in.\<close>

definition isdigit_char :: "char \<Rightarrow> bool" where
  "isdigit_char c =
     (let n = (of_char c :: nat) in (48 \<le> n \<and> n \<le> 57) \<or> n = 178 \<or> n = 179 \<or> n = 185)"

definition str_isdigit :: "string \<Rightarrow> bool" where
  "str_isdigit s = (s \<noteq> [] \<and> list_all isdigit_char s)"

text \<open>\<^verbatim>\<open>str.isspace\<close> on one character: U+0009 .. U+000D, U+001C .. U+0020, U+0085, U+00A0.\<close>

definition isspace_char :: "char \<Rightarrow> bool" where
  "isspace_char c =
     (let n = (of_char c :: nat) in (9 \<le> n \<and> n \<le> 13) \<or> (28 \<le> n \<and> n \<le> 32) \<or> n = 133 \<or> n = 160)"

definition str_strip :: "string \<Rightarrow> string" where
  "str_strip s = rev (dropWhile isspace_char (rev (dropWhile isspace_char s)))"

text \<open>\<^verbatim>\<open>str.lower\<close>: the upper-case letters below U+0100 are A .. Z, U+00C0 .. U+00D6 and
  U+00D8 .. U+00DE; each has its lower-case partner 32 code points later.\<close>

definition lower_char :: "char \<Rightarrow> char" where
  "lower_char c =
     (let n = (of_char c :: nat) in
      if (65 \<le> n \<and> n \<le> 90) \<or> (192 \<le> n \<and> n \<le> 214) \<or> (216 \<le> n \<and> n \<le> 222)
      then char_of (n + 32) else c)"

definition str_lower :: "string \<Rightarrow> string" where
  "str_lower s = map lower_char s"

text \<open>The operator \<^verbatim>\<open>q in s\<close> on strings: \<open>q\<close> occurs in \<open>s\<close> as a contiguous block.\<close>

fun str_contains :: "string \<Rightarrow> string \<Rightarrow> bool" where
  "str_contains q [] = (q = [])"
| "str_contains q (c # s) = (prefix q (c # s) \<or> str_contains q s)"

text \<open>\<^verbatim>\<open>list.index(x)\<close>: the first position holding \<open>x\<close>, or no position.\<close>

fun list_index :: "'a list \<Rightarrow> 'a \<Rightarrow> nat option" where
  "list_index [] x = None"
| "list_index (y # ys) x = (if y = x then Some 0 else map_option Suc (list_index ys x))"

text \<open>\<^verbatim>\<open>str(n)\<close> of an integer: its decimal digits, with a minus sign when negative.\<close>

function decimal :: "int \<Rightarrow> string" where
  "decimal n =
     (if n < 10 then [char_of (48 + nat n)]
      else decimal (n div 10) @ [char_of (48 + nat (n mod 10))])"
  by pat_completeness auto
termination
  by (relation "measure nat") auto

declare decimal.simps [simp del]

definition str_of_int :: "int \<Rightarrow> string" where
  "str_of_int k = (if k < 0 then CHR ''-'' # decimal (- k) else decimal k)"

text \<open>\<^verbatim>\<open>repr\<close> of a string, which \<^verbatim>\<open>str\<close> of a \<^verbatim>\<open>KeyError\<close> and the \<^verbatim>\<open>%r\<close> of an error text
  print: quoted with \<^verbatim>\<open>'\<close> unless the text has a \<^verbatim>\<open>'\<close> and no \<^verbatim>\<open>"\<close>; the quote and the
  backslash are escaped, and the characters that are not printable are written as
  escapes.\<close>

definition hex_digit :: "nat \<Rightarrow> char" where
  "hex_digit n = (if n < 10 then char_of (48 + n) else char_of (87 + n))"

definition repr_char :: "char \<Rightarrow> char \<Rightarrow> string" where
  "repr_char quote c =
     (let n = (of_char c :: nat) in
      if c = quote \<or> c = CHR 0x5C then [CHR 0x5C, c]
      else if n = 9 then [CHR 0x5C, CHR ''t'']
      else if n = 10 then [CHR 0x5C, CHR ''n'']
      else if n = 13 then [CHR 0x5C, CHR ''r'']
      else if n < 32 \<or> (127 \<le> n \<and> n \<le> 160) \<or> n = 173
        then [CHR 0x5C, CHR ''x'', hex_digit (n div 16), hex_digit (n mod 16)]
      else [c])"

definition py_repr :: "string \<Rightarrow> string" where
  "py_repr s =
     (let quote = (if CHR 0x27 \<in> set s \<and> CHR 0x22 \<notin> set s then CHR 0x22 else CHR 0x27)
      in [quote] @ concat (map (repr_char quote) s) @ [quote])"

subsection \<open>Regular expressions\<close>

text \<open>The fragment of \<^verbatim>\<open>re\<close> that \<^verbatim>\<open>Email.validate\<close> uses: character classes,
  concatenation, alternation and repetition, matched by derivatives.\<close>

datatype rx =
    Zero
  | One
  | Cls "char \<Rightarrow> bool"
  | Alt rx rx
  | Seq rx rx
  | Star rx

fun nullable :: "rx \<Rightarrow> bool" where
  "nullable Zero = False"
| "nullable One = True"
| "nullable (Cls P) = False"
| "nullable (Alt r s) = (nullable r \<or> nullable s)"
| "nullable (Seq r s) = (nullable r \<and> nullable s)"
| "nullable (Star r) = True"

fun deriv :: "char \<Rightarrow> rx \<Rightarrow> rx" where
  "deriv c Zero = Zero"
| "deriv c One = Zero"
| "deriv c (Cls P) = (if P c then One else Zero)"
| "deriv c (Alt r s) = Alt (deriv c r) (deriv c s)"
| "deriv c (Seq r s) =
     (if nullable r then Alt (Seq (deriv c r) s) (deriv c s) else Seq (deriv c r) s)"
| "deriv c (Star r) = Seq (deriv c r) (Star r)"

definition fullmatch :: "rx \<Rightarrow> string \<Rightarrow> bool" where
  "fullmatch r s = nullable (fold deriv s r)"

definition Plus :: "rx \<Rightarrow> rx" where
  "Plus r = Seq r (Star r)"

definition Chr :: "char \<Rightarrow> rx" where
  "Chr c = Cls (\<lambda>x. x = c)"

definition ascii_alpha :: "char \<Rightarrow> bool" where
  "ascii_alpha c = (let n = (of_char c :: nat) in (65 \<le> n \<and> n \<le> 90) \<or> (97 \<le> n \<and> n \<le> 122))"

text \<open>\<^verbatim>\<open>[a-zA-Z0-9._%+-]\<close> and \<^verbatim>\<open>[a-zA-Z0-9.-]\<close>.\<close>

definition email_local_char :: "char \<Rightarrow> bool" where
  "email_local_char c = (ascii_alpha c \<or> ascii_digit c \<or> c \<in> set ''._%+-'')"

definition email_domain_char :: "char \<Rightarrow> bool" where
  "email_domain_char c = (ascii_alpha c \<or> ascii_digit c \<or> c \<in> set ''.-'')"

text \<open>The pattern \<^verbatim>\<open>^[a-zA-Z0-9._%+-]+@[a-zA-Z0-9.-]+\.[a-zA-Z]{2,}$\<close> without its anchors.\<close>

definition email_pattern :: rx where
  "email_pattern =
     Seq (Plus (Cls email_local_char))
       (Seq (Chr CHR ''@'')
         (Seq (Plus (Cls email_domain_char))
           (Seq (Chr CHR ''.'')
             (Seq (Cls ascii_alpha) (Plus (Cls ascii_alpha))))))"

text \<open>\<^verbatim>\<open>re.match(pattern, value) is not None\<close> for a pattern ending in \<^verbatim>\<open>$\<close>: the pattern
  matches from the start, and \<^verbatim>\<open>$\<close> holds at the end of the string or just before a
  newline that ends it.\<close>

definition re_match_dollar :: "rx \<Rightarrow> string \<Rightarrow> bool" where
  "re_match_dollar r s =
     (fullmatch r s \<or> (s \<noteq> [] \<and> last s = CHR 0x0A \<and> fullmatch r (butlast s)))"

section \<open>Calendar dates\<close>

text \<open>\<^verbatim>\<open>datetime.date\<close>, after CPython's \<^verbatim>\<open>Lib/_pydatetime.py\<close>. A \<^verbatim>\<open>Birthday\<close> holds the
  \<^verbatim>\<open>datetime\<close> that \<^verbatim>\<open>strptime\<close> returns for the format \<^verbatim>\<open>%d.%m.%Y\<close>; its time of day is
  always midnight, so the value is modelled by its date. The exceptions carry the texts
  of CPython's C implementation of the module.\<close>

record date =
  year :: int
  month :: int
  day :: int

definition MAXORDINAL :: int where
  "MAXORDINAL = 3652059"

definition DAYS_IN_MONTH :: "int list" where
  "DAYS_IN_MONTH = [-1, 31, 28, 31, 30, 31, 30, 31, 31, 30, 31, 30, 31]"

definition DAYS_BEFORE_MONTH :: "int list" where
  "DAYS_BEFORE_MONTH = [-1, 0, 31, 59, 90, 120, 151, 181, 212, 243, 273, 304, 334]"

definition is_leap :: "int \<Rightarrow> bool" where
  "is_leap y = (y mod 4 = 0 \<and> (y mod 100 \<noteq> 0 \<or> y mod 400 = 0))"

definition days_before_year :: "int \<Rightarrow> int" where
  "days_before_year y = (let y' = y - 1 in y' * 365 + y' div 4 - y' div 100 + y' div 400)"

definition days_in_month :: "int \<Rightarrow> int \<Rightarrow> int" where
  "days_in_month y m = (if m = 2 \<and> is_leap y then 29 else DAYS_IN_MONTH ! nat m)"

definition days_before_month :: "int \<Rightarrow> int \<Rightarrow> int" where
  "days_before_month y m =
     DAYS_BEFORE_MONTH ! nat m + (if m > 2 \<and> is_leap y then 1 else 0)"

definition ymd2ord :: "int \<Rightarrow> int \<Rightarrow> int \<Rightarrow> int" where
  "ymd2ord y m d = days_before_year y + days_before_month y m + d"

definition ord2ymd :: "int \<Rightarrow> date" where
  "ord2ymd n0 =
     (let n = n0 - 1;
          n400 = n div 146097; n = n mod 146097;
          y = n400 * 400 + 1;
          n100 = n div 36524; n = n mod 36524;
          n4 = n div 1461; n = n mod 1461;
          n1 = n div 365; n = n mod 365;
          y = y + n100 * 100 + n4 * 4 + n1
      in if n1 = 4 \<or> n100 = 4 then \<lparr>year = y - 1, month = 12, day = 31\<rparr>
         else
           (let leapyear = (n1 = 3 \<and> (n4 \<noteq> 24 \<or> n100 = 3));
                m = (n + 50) div 32;
                preceding = DAYS_BEFORE_MONTH ! nat m + (if m > 2 \<and> leapyear then 1 else 0);
                m' = (if preceding > n then m - 1 else m);
                preceding' =
                  (if preceding > n
                   then preceding - (DAYS_IN_MONTH ! nat m' + (if m' = 2 \<and> leapyear then 1 else 0))
                   else preceding)
            in \<lparr>year = y, month = m', day = n - preceding' + 1\<rparr>))"

text \<open>The constructor \<^verbatim>\<open>date(year, month, day)\<close> with its range checks.\<close>

definition date_new :: "int \<Rightarrow> int \<Rightarrow> int \<Rightarrow> error + date" where
  "date_new y m d =
     (if \<not> (1 \<le> y \<and> y \<le> 9999)
        then Inl (ValueError (''year '' @ str_of_int y @ '' is out of range''))
      else if \<not> (1 \<le> m \<and> m \<le> 12) then Inl (ValueError ''month must be in 1..12'')
      else if \<not> (1 \<le> d \<and> d \<le> days_in_month y m)
        then Inl (ValueError ''day is out of range for month'')
      else Inr \<lparr>year = y, month = m, day = d\<rparr>)"

definition replace_year :: "date \<Rightarrow> int \<Rightarrow> error + date" where
  "replace_year d y = date_new y (month d) (day d)"

definition date_less :: "date \<Rightarrow> date \<Rightarrow> bool" where
  "date_less a b =
     (year a < year b \<or> (year a = year b \<and>
        (month a < month b \<or> (month a = month b \<and> day a < day b))))"

definition toordinal :: "date \<Rightarrow> int" where
  "toordinal d = ymd2ord (year d) (month d) (day d)"

definition weekday :: "date \<Rightarrow> int" where
  "weekday d = (toordinal d + 6) mod 7"

text \<open>\<^verbatim>\<open>timedelta(days=n)\<close>, by its number of days, and \<^verbatim>\<open>date + timedelta\<close>. The number of
  days must fit the C type \<^verbatim>\<open>int\<close> and then have at most nine digits.\<close>

definition timedelta :: "int \<Rightarrow> error + int" where
  "timedelta n =
     (if n < - 2147483648 \<or> 2147483647 < n
        then Inl (OverflowError ''Python int too large to convert to C int'')
      else if \<bar>n\<bar> > 999999999
        then Inl (OverflowError
                    (''days='' @ str_of_int n @ ''; must have magnitude <= 999999999''))
      else Inr n)"

definition date_add :: "date \<Rightarrow> int \<Rightarrow> error + date" where
  "date_add d n =
     (let o' = toordinal d + n in
      if 0 < o' \<and> o' \<le> MAXORDINAL then Inr (ord2ymd o')
      else Inl (OverflowError ''date value out of range''))"

subsection \<open>\<^verbatim>\<open>strftime\<close> and \<^verbatim>\<open>strptime\<close> for the format \<^verbatim>\<open>%d.%m.%Y\<close>\<close>

definition digit_char :: "int \<Rightarrow> char" where
  "digit_char n = char_of (48 + nat n)"

definition digit_val :: "char \<Rightarrow> int" where
  "digit_val c = int (of_char c) - 48"

definition pad2 :: "int \<Rightarrow> string" where
  "pad2 n = [digit_char (n div 10 mod 10), digit_char (n mod 10)]"

definition pad4 :: "int \<Rightarrow> string" where
  "pad4 n = [digit_char (n div 1000 mod 10), digit_char (n div 100 mod 10),
             digit_char (n div 10 mod 10), digit_char (n mod 10)]"

text \<open>\<^verbatim>\<open>strftime\<close> hands the format to the C library of the platform. \<^verbatim>\<open>%d\<close> and \<^verbatim>\<open>%m\<close>
  print two digits everywhere. What \<^verbatim>\<open>%Y\<close> prints is the platform's choice and is the
  parameter \<open>year_text\<close>: the documented output is the year zero-padded to four digits
  (\<^verbatim>\<open>0001\<close> .. \<^verbatim>\<open>9999\<close>), which CPython produces from version 3.13 on and on the C
  libraries that pad; CPython up to 3.12 on glibc prints the year without padding
  (\<^verbatim>\<open>999\<close> for the year 999). The two agree from the year 1000 on.\<close>

definition year_padded :: "int \<Rightarrow> string" where
  "year_padded y = pad4 y"

definition year_unpadded :: "int \<Rightarrow> string" where
  "year_unpadded y = dropWhile (\<lambda>c. c = CHR ''0'') (pad4 y)"

definition strftime :: "(int \<Rightarrow> string) \<Rightarrow> date \<Rightarrow> string" where
  "strftime year_text d = pad2 (day d) @ ''.'' @ pad2 (month d) @ ''.'' @ year_text (year d)"

text \<open>\<^verbatim>\<open>strptime\<close> turns the format into the regular expression
  \<^verbatim>\<open>(?P<d>3[0-1]|[1-2]\d|0[1-9]|[1-9]| [1-9])\.(?P<m>1[0-2]|0[1-9]|[1-9])\.(?P<Y>\d\d\d\d)\<close>,
  matches it at the start of the text and refuses text that is left over. Each group
  is a function from the text to the matches it admits, in the order in which the
  backtracking matcher tries them: the matched text and the rest.\<close>

definition char_in :: "char \<Rightarrow> char \<Rightarrow> char \<Rightarrow> bool" where
  "char_in lo hi c = (lo \<le> c \<and> c \<le> hi)"

definition alt1 :: "(char \<Rightarrow> bool) \<Rightarrow> string \<Rightarrow> (string \<times> string) list" where
  "alt1 P s = (case s of c # t \<Rightarrow> if P c then [([c], t)] else [] | [] \<Rightarrow> [])"

definition alt2 :: "(char \<Rightarrow> bool) \<Rightarrow> (char \<Rightarrow> bool) \<Rightarrow> string \<Rightarrow> (string \<times> string) list" where
  "alt2 P Q s =
     (case s of c1 # c2 # t \<Rightarrow> if P c1 \<and> Q c2 then [([c1, c2], t)] else [] | _ \<Rightarrow> [])"

definition rx_d :: "string \<Rightarrow> (string \<times> string) list" where
  "rx_d s =
     alt2 (\<lambda>c. c = CHR ''3'') (char_in CHR ''0'' CHR ''1'') s @
     alt2 (char_in CHR ''1'' CHR ''2'') ascii_digit s @
     alt2 (\<lambda>c. c = CHR ''0'') (char_in CHR ''1'' CHR ''9'') s @
     alt1 (char_in CHR ''1'' CHR ''9'') s @
     alt2 (\<lambda>c. c = CHR '' '') (char_in CHR ''1'' CHR ''9'') s"

definition rx_m :: "string \<Rightarrow> (string \<times> string) list" where
  "rx_m s =
     alt2 (\<lambda>c. c = CHR ''1'') (char_in CHR ''0'' CHR ''2'') s @
     alt2 (\<lambda>c. c = CHR ''0'') (char_in CHR ''1'' CHR ''9'') s @
     alt1 (char_in CHR ''1'' CHR ''9'') s"

definition rx_Y :: "string \<Rightarrow> (string \<times> string) list" where
  "rx_Y s =
     (if length s \<ge> 4 \<and> list_all ascii_digit (take 4 s) then [(take 4 s, drop 4 s)] else [])"

definition lit :: "char \<Rightarrow> string \<Rightarrow> string list" where
  "lit c s = (case s of x # t \<Rightarrow> if x = c then [t] else [] | [] \<Rightarrow> [])"

definition strptime_matches :: "string \<Rightarrow> (string \<times> string \<times> string \<times> string) list" where
  "strptime_matches s =
     [(d, m, y, r5).
        (d, r1) \<leftarrow> rx_d s, r2 \<leftarrow> lit CHR ''.'' r1,
        (m, r3) \<leftarrow> rx_m r2, r4 \<leftarrow> lit CHR ''.'' r3,
        (y, r5) \<leftarrow> rx_Y r4]"

text \<open>\<^verbatim>\<open>int(text)\<close> on a group: blanks around the digits are ignored.\<close>

definition py_int :: "string \<Rightarrow> int" where
  "py_int s = fold (\<lambda>c n. 10 * n + digit_val c) (str_strip s) 0"

definition strptime :: "string \<Rightarrow> error + date" where
  "strptime s =
     (case strptime_matches s of
        [] \<Rightarrow>
          Inl (ValueError (''time data '' @ py_repr s @ '' does not match format ''
                 @ py_repr ''%d.%m.%Y''))
      | (d, m, y, rest) # _ \<Rightarrow>
          if rest \<noteq> [] then Inl (ValueError (''unconverted data remains: '' @ rest))
          else date_new (py_int y) (py_int m) (py_int d))"

section \<open>Fields\<close>

text \<open>\<^verbatim>\<open>Phone.validate\<close> and the constructor \<^verbatim>\<open>Phone(value)\<close>; a field object is modelled by
  its \<^verbatim>\<open>value\<close>.\<close>

definition Phone_validate :: "string \<Rightarrow> bool" where
  "Phone_validate v = (str_isdigit v \<and> length v = 10)"

definition Phone :: "string \<Rightarrow> error + string" where
  "Phone v =
     (if \<not> Phone_validate v
      then Inl (ValueError ''Phone number must contain 10 digits. Use format like 0931112233.'')
      else Inr v)"

text \<open>The phone number of the specification: exactly ten ASCII digits.\<close>

definition ascii_phone :: "string \<Rightarrow> bool" where
  "ascii_phone s = (length s = 10 \<and> list_all ascii_digit s)"

definition Email_validate :: "string \<Rightarrow> bool" where
  "Email_validate v = re_match_dollar email_pattern v"

definition Email :: "string \<Rightarrow> error + string" where
  "Email v0 =
     (let v = str_lower (str_strip v0) in
      if \<not> Email_validate v
      then Inl (ValueError ''Invalid email format. Must contain '@' and domain.'')
      else Inr v)"

definition Address_validate :: "string \<Rightarrow> bool" where
  "Address_validate v = (length (str_strip v) > 0)"

definition Address :: "string \<Rightarrow> error + string" where
  "Address v =
     (if \<not> Address_validate v then Inl (ValueError ''Address cannot be empty.'') else Inr v)"

text \<open>\<^verbatim>\<open>Birthday(value)\<close>: every \<^verbatim>\<open>ValueError\<close> of \<^verbatim>\<open>strptime\<close> is raised again with the
  class's own message.\<close>

definition Birthday :: "string \<Rightarrow> error + date" where
  "Birthday v =
     (case strptime v of
        Inl e \<Rightarrow> Inl (ValueError ''Invalid date format. Use DD.MM.YYYY'')
      | Inr birthday_date \<Rightarrow> Inr birthday_date)"

section \<open>Records\<close>

text \<open>\<^verbatim>\<open>class Record\<close>. \<^verbatim>\<open>Name\<close> is a \<^verbatim>\<open>Field\<close> with no validation of its own, so the name is
  the string given. The phone list holds the values of the \<^verbatim>\<open>Phone\<close> objects, in order.\<close>

record Record =
  name :: string
  phones :: "string list"
  email :: "string option"
  address :: "string option"
  birthday :: "date option"

definition Record_init :: "string \<Rightarrow> Record" where
  "Record_init n = \<lparr>name = n, phones = [], email = None, address = None, birthday = None\<rparr>"

text \<open>A method that mutates \<^verbatim>\<open>self\<close> returns the outcome (\<open>Inl\<close> for a raised exception)
  together with the record as the call leaves it.\<close>

definition add_phone :: "string \<Rightarrow> Record \<Rightarrow> (error + unit) \<times> Record" where
  "add_phone phone self =
     (case Phone phone of
        Inl e \<Rightarrow> (Inl e, self)
      | Inr p \<Rightarrow> (Inr (), self\<lparr>phones := phones self @ [p]\<rparr>))"

definition find_phone :: "Record \<Rightarrow> string \<Rightarrow> string option" where
  "find_phone self phone = find (\<lambda>p. p = phone) (phones self)"

text \<open>\<^verbatim>\<open>edit_phone\<close>. \<^verbatim>\<open>self.phones.index(phone_to_edit)\<close> looks for the object found by
  \<^verbatim>\<open>find_phone\<close>; the list holds one fresh object per \<^verbatim>\<open>add_phone\<close> or \<^verbatim>\<open>edit_phone\<close>, so
  that is the first position whose value is equal.\<close>

definition edit_phone :: "string \<Rightarrow> string \<Rightarrow> Record \<Rightarrow> (error + unit) \<times> Record" where
  "edit_phone old_phone new_phone self =
     (case find_phone self old_phone of
        Some phone_to_edit \<Rightarrow>
          if \<not> Phone_validate new_phone
          then (Inl (ValueError
                  ''New phone number must contain 10 digits. Use format like 0931112233.''), self)
          else
            (case list_index (phones self) phone_to_edit of
               None \<Rightarrow> (Inl (ValueError ''list.index(x): x not in list''), self)
             | Some index \<Rightarrow>
                 (case Phone new_phone of
                    Inl e \<Rightarrow> (Inl e, self)
                  | Inr p \<Rightarrow> (Inr (), self\<lparr>phones := (phones self)[index := p]\<rparr>)))
      | None \<Rightarrow> (Inl (ValueError (''Phone number '' @ old_phone @ '' not found'')), self))"

definition add_email :: "string \<Rightarrow> Record \<Rightarrow> (error + unit) \<times> Record" where
  "add_email v self =
     (case Email v of
        Inl e \<Rightarrow> (Inl e, self)
      | Inr x \<Rightarrow> (Inr (), self\<lparr>email := Some x\<rparr>))"

definition add_address :: "string \<Rightarrow> Record \<Rightarrow> (error + unit) \<times> Record" where
  "add_address v self =
     (case Address v of
        Inl e \<Rightarrow> (Inl e, self)
      | Inr x \<Rightarrow> (Inr (), self\<lparr>address := Some x\<rparr>))"

definition add_birthday :: "string \<Rightarrow> Record \<Rightarrow> (error + unit) \<times> Record" where
  "add_birthday v self =
     (case Birthday v of
        Inl e \<Rightarrow> (Inl e, self)
      | Inr x \<Rightarrow> (Inr (), self\<lparr>birthday := Some x\<rparr>))"

definition remove_phone :: "string \<Rightarrow> Record \<Rightarrow> (error + unit) \<times> Record" where
  "remove_phone phone self =
     (case find_phone self phone of
        Some phone_to_remove \<Rightarrow> (Inr (), self\<lparr>phones := remove1 phone_to_remove (phones self)\<rparr>)
      | None \<Rightarrow> (Inl (ValueError (''Phone number '' @ phone @ '' not found'')), self))"

definition edit_email :: "string \<Rightarrow> Record \<Rightarrow> (error + unit) \<times> Record" where
  "edit_email new_email self =
     (if \<not> Email_validate new_email then (Inl (ValueError ''Invalid email format.''), self)
      else
        (case Email new_email of
           Inl e \<Rightarrow> (Inl e, self)
         | Inr x \<Rightarrow> (Inr (), self\<lparr>email := Some x\<rparr>)))"

definition edit_address :: "string \<Rightarrow> Record \<Rightarrow> (error + unit) \<times> Record" where
  "edit_address new_address self =
     (if \<not> Address_validate new_address then (Inl (ValueError ''Address cannot be empty.''), self)
      else
        (case Address new_address of
           Inl e \<Rightarrow> (Inl e, self)
         | Inr x \<Rightarrow> (Inr (), self\<lparr>address := Some x\<rparr>)))"

text \<open>What the constructors of the fields guarantee about the values a record holds:
  every phone passes \<^verbatim>\<open>Phone.validate\<close>, the email is a value that \<^verbatim>\<open>Email\<close> returns
  unchanged (stripped, in lower case and matching the pattern), the address passes
  \<^verbatim>\<open>Address.validate\<close> and the birthday is a date of the calendar.\<close>

definition valid_date :: "date \<Rightarrow> bool" where
  "valid_date d =
     (1 \<le> year d \<and> year d \<le> 9999 \<and> 1 \<le> month d \<and> month d \<le> 12 \<and>
      1 \<le> day d \<and> day d \<le> days_in_month (year d) (month d))"

definition record_ok :: "Record \<Rightarrow> bool" where
  "record_ok r =
     (list_all Phone_validate (phones r) \<and>
      (case email r of None \<Rightarrow> True | Some e \<Rightarrow> Email e = Inr e) \<and>
      (case address r of None \<Rightarrow> True | Some a \<Rightarrow> Address_validate a) \<and>
      (case birthday r of None \<Rightarrow> True | Some d \<Rightarrow> valid_date d))"

subsection \<open>The portable form\<close>

text \<open>The dictionary that \<^verbatim>\<open>to_dict\<close> builds has the five keys \<^verbatim>\<open>name\<close>, \<^verbatim>\<open>phones\<close>,
  \<^verbatim>\<open>email\<close>, \<^verbatim>\<open>address\<close> and \<^verbatim>\<open>birthday\<close>; \<open>None\<close> stands for Python's \<^verbatim>\<open>None\<close>.\<close>

record portable =
  d_name :: string
  d_phones :: "string list"
  d_email :: "string option"
  d_address :: "string option"
  d_birthday :: "string option"

definition to_dict :: "(int \<Rightarrow> string) \<Rightarrow> Record \<Rightarrow> portable" where
  "to_dict year_text self =
     \<lparr>d_name = name self,
      d_phones = phones self,
      d_email = email self,
      d_address = address self,
      d_birthday = map_option (strftime year_text) (birthday self)\<rparr>"

text \<open>The loop \<^verbatim>\<open>for phone in data.get("phones", []): record.add_phone(phone)\<close>.\<close>

fun add_phones :: "string list \<Rightarrow> Record \<Rightarrow> (error + unit) \<times> Record" where
  "add_phones [] record = (Inr (), record)"
| "add_phones (phone # rest) record =
     (case add_phone phone record of
        (Inl e, record') \<Rightarrow> (Inl e, record')
      | (Inr u, record') \<Rightarrow> add_phones rest record')"

text \<open>\<^verbatim>\<open>if data.get(key): record.add(data[key])\<close>: the setter runs when the value is a
  string that is not empty; \<^verbatim>\<open>None\<close> and the empty string skip it.\<close>

definition if_present ::
  "string option \<Rightarrow> (string \<Rightarrow> Record \<Rightarrow> (error + unit) \<times> Record) \<Rightarrow> Record
     \<Rightarrow> (error + unit) \<times> Record" where
  "if_present x setter record =
     (case x of
        None \<Rightarrow> (Inr (), record)
      | Some v \<Rightarrow> if v \<noteq> [] then setter v record else (Inr (), record))"

definition from_dict :: "portable \<Rightarrow> error + Record" where
  "from_dict data =
     (case add_phones (d_phones data) (Record_init (d_name data)) of
        (Inl e, r1) \<Rightarrow> Inl e
      | (Inr u1, r1) \<Rightarrow>
          (case if_present (d_email data) add_email r1 of
             (Inl e, r2) \<Rightarrow> Inl e
           | (Inr u2, r2) \<Rightarrow>
               (case if_present (d_address data) add_address r2 of
                  (Inl e, r3) \<Rightarrow> Inl e
                | (Inr u3, r3) \<Rightarrow>
                    (case if_present (d_birthday data) add_birthday r3 of
                       (Inl e, r4) \<Rightarrow> Inl e
                     | (Inr u4, r4) \<Rightarrow> Inr r4))))"

section \<open>The address book\<close>

text \<open>\<^verbatim>\<open>AddressBook\<close> is a \<^verbatim>\<open>UserDict\<close>: its \<^verbatim>\<open>data\<close> is a dictionary from names to records
  that keeps the order of insertion. It is an association list with one entry per key;
  storing under a key that is present replaces the value where it stands, and a new
  key goes to the end, which is what \<open>AList.update\<close> does.\<close>

type_synonym AddressBook = "(string \<times> Record) list"

definition book_values :: "AddressBook \<Rightarrow> Record list" where
  "book_values book = map snd book"

definition add_record :: "Record \<Rightarrow> AddressBook \<Rightarrow> AddressBook" where
  "add_record record book = AList.update (name record) record book"

definition book_find :: "string \<Rightarrow> AddressBook \<Rightarrow> Record option" where
  "book_find n book = map_of book n"

subsection \<open>Birthdays in a number of days\<close>

record entry =
  entry_name :: string
  congratulation_date :: string

text \<open>The body of the loop over \<^verbatim>\<open>self.data.values()\<close> in \<^verbatim>\<open>get_birthdays_in_days\<close>, for one
  record: the result list as the iteration leaves it, or the exception it raises.\<close>

definition birthday_step ::
  "(int \<Rightarrow> string) \<Rightarrow> date \<Rightarrow> date \<Rightarrow> Record \<Rightarrow> entry list \<Rightarrow> error + entry list" where
  "birthday_step year_text today target_date record result =
     (case birthday record of
        None \<Rightarrow> Inr result
      | Some bday \<Rightarrow>
          (case replace_year bday (year today) of
             Inl e \<Rightarrow> Inl e
           | Inr bday_this_year0 \<Rightarrow>
               (case (if date_less bday_this_year0 today
                      then replace_year bday_this_year0 (year today + 1)
                      else Inr bday_this_year0) of
                  Inl e \<Rightarrow> Inl e
                | Inr bday_this_year \<Rightarrow>
                    if bday_this_year = target_date then
                      (let wd = weekday bday_this_year in
                       case (if wd = 5 then date_add bday_this_year 2
                             else if wd = 6 then date_add bday_this_year 1
                             else Inr bday_this_year) of
                         Inl e \<Rightarrow> Inl e
                       | Inr d \<Rightarrow>
                           Inr (result @
                             [\<lparr>entry_name = name record, congratulation_date = strftime year_text d\<rparr>]))
                    else Inr result)))"

fun birthday_loop ::
  "(int \<Rightarrow> string) \<Rightarrow> date \<Rightarrow> date \<Rightarrow> Record list \<Rightarrow> entry list \<Rightarrow> error + entry list" where
  "birthday_loop year_text today target_date [] result = Inr result"
| "birthday_loop year_text today target_date (record # rest) result =
     (case birthday_step year_text today target_date record result of
        Inl e \<Rightarrow> Inl e
      | Inr result' \<Rightarrow> birthday_loop year_text today target_date rest result')"

text \<open>\<^verbatim>\<open>get_birthdays_in_days\<close>. The date that \<^verbatim>\<open>datetime.today().date()\<close> reads from the clock
  is the parameter \<open>today\<close>. \<^verbatim>\<open>result.sort(key=...)\<close> is a stable sort on the names, which
  compare by code points.\<close>

definition get_birthdays_in_days ::
  "(int \<Rightarrow> string) \<Rightarrow> date \<Rightarrow> int \<Rightarrow> AddressBook \<Rightarrow> error + entry list" where
  "get_birthdays_in_days year_text today days book =
     (if days < 0 then Inl (ValueError ''Number of days cannot be negative.'')
      else
        (case timedelta days of
           Inl e \<Rightarrow> Inl e
         | Inr td \<Rightarrow>
             (case date_add today td of
                Inl e \<Rightarrow> Inl e
              | Inr target_date \<Rightarrow>
                  (case birthday_loop year_text today target_date (book_values book) [] of
                     Inl e \<Rightarrow> Inl e
                   | Inr result \<Rightarrow> Inr (sort_key entry_name result)))))"

definition get_upcoming_birthdays ::
  "(int \<Rightarrow> string) \<Rightarrow> date \<Rightarrow> AddressBook \<Rightarrow> error + entry list" where
  "get_upcoming_birthdays year_text today book = get_birthdays_in_days year_text today 7 book"

text \<open>The two rules of the specification for \<^verbatim>\<open>get_birthdays_in_days\<close>, in its words. The
  occurrence of a birthday is its month and day in the year of today, or in the next
  year when that day of this year is already past. The congratulation date is the
  occurrence, moved two days on from a Saturday (weekday 5) and one day on from a
  Sunday (weekday 6).\<close>

definition birthday_occurrence :: "date \<Rightarrow> date \<Rightarrow> date" where
  "birthday_occurrence today bday =
     (let this_year = \<lparr>year = year today, month = month bday, day = day bday\<rparr> in
      if date_less this_year today then this_year\<lparr>year := year today + 1\<rparr> else this_year)"

definition congratulation :: "date \<Rightarrow> error + date" where
  "congratulation d =
     (if weekday d = 5 then date_add d 2 else if weekday d = 6 then date_add d 1 else Inr d)"

text \<open>An entry of the result, read against the records \<open>rs\<close>: it carries the name of a
  record with a birthday whose occurrence is the target date, and the congratulation
  date of that occurrence as text.\<close>

definition entry_for :: "(int \<Rightarrow> string) \<Rightarrow> date \<Rightarrow> date \<Rightarrow> Record list \<Rightarrow> entry \<Rightarrow> bool" where
  "entry_for year_text today target rs e =
     (\<exists>r\<in>set rs. \<exists>b c.
        birthday r = Some b \<and> entry_name e = name r \<and>
        birthday_occurrence today b = target \<and>
        congratulation target = Inr c \<and> congratulation_date e = strftime year_text c)"

subsection \<open>Search\<close>

text \<open>The inner loop over \<^verbatim>\<open>record.phones\<close>: the value of \<^verbatim>\<open>phone_found\<close> when it ends.\<close>

fun phone_loop :: "string \<Rightarrow> string list \<Rightarrow> bool" where
  "phone_loop query_lower [] = False"
| "phone_loop query_lower (phone # rest) =
     (if str_contains query_lower phone then True else phone_loop query_lower rest)"

fun search_loop ::
  "(int \<Rightarrow> string) \<Rightarrow> string \<Rightarrow> Record list \<Rightarrow> Record list \<Rightarrow> Record list" where
  "search_loop year_text query_lower [] found_records = found_records"
| "search_loop year_text query_lower (record # rest) found_records =
     (if str_contains query_lower (str_lower (name record))
      then search_loop year_text query_lower rest (found_records @ [record])
      else if phone_loop query_lower (phones record)
      then search_loop year_text query_lower rest (found_records @ [record])
      else if (case email record of None \<Rightarrow> False
               | Some e \<Rightarrow> str_contains query_lower (str_lower e))
      then search_loop year_text query_lower rest (found_records @ [record])
      else if (case address record of None \<Rightarrow> False
               | Some a \<Rightarrow> str_contains query_lower (str_lower a))
      then search_loop year_text query_lower rest (found_records @ [record])
      else if (case birthday record of None \<Rightarrow> False
               | Some b \<Rightarrow> str_contains query_lower (strftime year_text b))
      then search_loop year_text query_lower rest (found_records @ [record])
      else search_loop year_text query_lower rest found_records)"

definition search :: "(int \<Rightarrow> string) \<Rightarrow> string \<Rightarrow> AddressBook \<Rightarrow> Record list" where
  "search year_text query book = search_loop year_text (str_lower query) (book_values book) []"

text \<open>What the specification says a record must satisfy to be found: the query, in
  lower case, occurs in the name, in a phone, in the email, in the address or in the
  birthday written as \<^verbatim>\<open>DD.MM.YYYY\<close>.\<close>

definition record_matches :: "(int \<Rightarrow> string) \<Rightarrow> string \<Rightarrow> Record \<Rightarrow> bool" where
  "record_matches year_text query record =
     (let q = str_lower query in
      str_contains q (str_lower (name record)) \<or>
      list_ex (str_contains q) (phones record) \<or>
      (case email record of None \<Rightarrow> False | Some e \<Rightarrow> str_contains q (str_lower e)) \<or>
      (case address record of None \<Rightarrow> False | Some a \<Rightarrow> str_contains q (str_lower a)) \<or>
      (case birthday record of None \<Rightarrow> False | Some b \<Rightarrow> str_contains q (strftime year_text b)))"

section \<open>The command layer\<close>

text \<open>The decorator \<^verbatim>\<open>input_error\<close>: the handler's exception becomes the text returned.\<close>

definition input_error :: "error + string \<Rightarrow> string" where
  "input_error outcome =
     (case outcome of
        Inr text \<Rightarrow> text
      | Inl (ValueError m) \<Rightarrow> ''Error: '' @ m
      | Inl (KeyError m) \<Rightarrow> ''Error: '' @ py_repr m
      | Inl (IndexError m) \<Rightarrow> ''Error: '' @ m
      | Inl (OverflowError m) \<Rightarrow> ''Unexpected error: '' @ m)"

text \<open>The handler \<^verbatim>\<open>add_contact\<close> before decoration. The variable \<^verbatim>\<open>record\<close> refers to the
  object that the book holds under \<^verbatim>\<open>name\<close> (found there, or just stored there by
  \<^verbatim>\<open>add_record\<close>), so \<^verbatim>\<open>record.add_phone\<close> changes the book's entry under that key.\<close>

definition add_contact_body :: "string list \<Rightarrow> AddressBook \<Rightarrow> (error + string) \<times> AddressBook" where
  "add_contact_body args book =
     (if length args < 2
      then (Inl (IndexError ''Not enough arguments. Usage: add contact [name] [phone]''), book)
      else
        (let n = args ! 0; phone = args ! 1;
             (record, message, book1) =
               (case book_find n book of
                  None \<Rightarrow> (Record_init n, ''Contact added.'', add_record (Record_init n) book)
                | Some r \<Rightarrow> (r, ''Contact updated.'', book))
         in if phone \<noteq> [] then
              (case add_phone phone record of
                 (Inl e, record') \<Rightarrow> (Inl e, AList.update n record' book1)
               | (Inr u, record') \<Rightarrow> (Inr message, AList.update n record' book1))
            else (Inr message, book1)))"

definition add_contact :: "string list \<Rightarrow> AddressBook \<Rightarrow> string \<times> AddressBook" where
  "add_contact args book =
     (case add_contact_body args book of (outcome, book') \<Rightarrow> (input_error outcome, book'))"

section \<open>Phone numbers\<close>

lemma chr_eq_code: "(c = d) = ((of_char c :: nat) = of_char d)"
  by (simp only: of_char_eq_iff)

lemma ascii_digit_isdigit: "ascii_digit c \<Longrightarrow> isdigit_char c"
  by (simp add: ascii_digit_def isdigit_char_def Let_def)

lemma ascii_phone_valid: "ascii_phone s \<Longrightarrow> Phone_validate s"
  by (auto simp: ascii_phone_def Phone_validate_def str_isdigit_def list_all_iff
      intro: ascii_digit_isdigit)

text \<open>What the code gets right: a string of ten ASCII digits is accepted and becomes the
  value of the phone, and a string of another length is refused.\<close>

lemma Phone_accepts_ascii_phone: "ascii_phone s \<Longrightarrow> Phone s = Inr s"
  by (simp add: Phone_def ascii_phone_valid)

lemma Phone_rejects_wrong_length:
  "length s \<noteq> 10 \<Longrightarrow>
     Phone s =
       Inl (ValueError ''Phone number must contain 10 digits. Use format like 0931112233.'')"
  by (simp add: Phone_def Phone_validate_def)

text \<open>
  Claim C4 says that \<^verbatim>\<open>Phone\<close> accepts exactly the strings of ten ASCII digits and fails
  for every other string, digits outside ASCII included. The code accepts a string that
  the claim refuses: \<^verbatim>\<open>str.isdigit\<close> also holds for digits outside ASCII, so the string of
  ten characters U+00B2 (superscript two) becomes a phone although it is not made of
  ten ASCII digits.
\<close>

theorem Phone_accepts_superscript_digits:
  "Phone [CHR 0xB2, CHR 0xB2, CHR 0xB2, CHR 0xB2, CHR 0xB2,
          CHR 0xB2, CHR 0xB2, CHR 0xB2, CHR 0xB2, CHR 0xB2]
     = Inr [CHR 0xB2, CHR 0xB2, CHR 0xB2, CHR 0xB2, CHR 0xB2,
            CHR 0xB2, CHR 0xB2, CHR 0xB2, CHR 0xB2, CHR 0xB2] \<and>
   \<not> ascii_phone [CHR 0xB2, CHR 0xB2, CHR 0xB2, CHR 0xB2, CHR 0xB2,
                   CHR 0xB2, CHR 0xB2, CHR 0xB2, CHR 0xB2, CHR 0xB2]"
  by (simp add: Phone_def Phone_validate_def str_isdigit_def isdigit_char_def ascii_phone_def
      ascii_digit_def)

section \<open>Editing a phone\<close>

lemma find_phone_None: "find_phone r p = None \<longleftrightarrow> p \<notin> set (phones r)"
  by (auto simp: find_phone_def find_None_iff)

lemma find_phone_Some: "find_phone r p = Some q \<Longrightarrow> q = p \<and> p \<in> set (phones r)"
  by (auto simp: find_phone_def find_Some_iff)

lemma list_index_first:
  "x \<in> set xs \<Longrightarrow>
     \<exists>i. list_index xs x = Some i \<and> i < length xs \<and> xs ! i = x \<and> (\<forall>j<i. xs ! j \<noteq> x)"
proof (induction xs)
  case Nil
  then show ?case by simp
next
  case (Cons y ys)
  show ?case
  proof (cases "y = x")
    case True
    then show ?thesis by simp
  next
    case False
    with Cons obtain i where
      i: "list_index ys x = Some i" "i < length ys" "ys ! i = x" "\<forall>j<i. ys ! j \<noteq> x"
      by auto
    have "\<forall>j<Suc i. (y # ys) ! j \<noteq> x"
      using False i(4) by (auto simp: nth_Cons split: nat.splits)
    with i False show ?thesis by simp
  qed
qed

text \<open>What \<^verbatim>\<open>edit_phone(old, new)\<close> does, in terms of the check that the code applies to
  \<open>new\<close>: it fails with the not-found error when no phone of the record equals \<open>old\<close>,
  fails with the invalid-phone error when \<open>old\<close> is present and \<open>new\<close> does not pass
  \<^verbatim>\<open>Phone.validate\<close>, and leaves the record as it was in both cases; when \<open>old\<close> is present
  and \<open>new\<close> passes, the first phone equal to \<open>old\<close> is replaced where it stands, and
  every other position and field is kept.\<close>

lemma edit_phone_outcomes:
  "(old_phone \<notin> set (phones r) \<longrightarrow>
      edit_phone old_phone new_phone r =
        (Inl (ValueError (''Phone number '' @ old_phone @ '' not found'')), r)) \<and>
   (old_phone \<in> set (phones r) \<and> \<not> Phone_validate new_phone \<longrightarrow>
      edit_phone old_phone new_phone r =
        (Inl (ValueError
           ''New phone number must contain 10 digits. Use format like 0931112233.''), r)) \<and>
   (old_phone \<in> set (phones r) \<and> Phone_validate new_phone \<longrightarrow>
      (\<exists>i < length (phones r).
          phones r ! i = old_phone \<and> (\<forall>j<i. phones r ! j \<noteq> old_phone) \<and>
          edit_phone old_phone new_phone r =
            (Inr (), r\<lparr>phones := (phones r)[i := new_phone]\<rparr>)))"
proof (intro conjI impI)
  assume "old_phone \<notin> set (phones r)"
  then have "find_phone r old_phone = None"
    by (simp add: find_phone_None)
  then show "edit_phone old_phone new_phone r =
        (Inl (ValueError (''Phone number '' @ old_phone @ '' not found'')), r)"
    by (simp add: edit_phone_def)
next
  assume a: "old_phone \<in> set (phones r) \<and> \<not> Phone_validate new_phone"
  then obtain q where "find_phone r old_phone = Some q"
    using find_phone_None [of r old_phone] by (cases "find_phone r old_phone") auto
  with a show "edit_phone old_phone new_phone r =
        (Inl (ValueError
           ''New phone number must contain 10 digits. Use format like 0931112233.''), r)"
    by (simp add: edit_phone_def)
next
  assume a: "old_phone \<in> set (phones r) \<and> Phone_validate new_phone"
  then obtain q where q: "find_phone r old_phone = Some q"
    using find_phone_None [of r old_phone] by (cases "find_phone r old_phone") auto
  then have qe: "q = old_phone"
    by (simp add: find_phone_Some)
  from a list_index_first [of old_phone "phones r"] obtain i where
    i: "list_index (phones r) old_phone = Some i" "i < length (phones r)"
       "phones r ! i = old_phone" "\<forall>j<i. phones r ! j \<noteq> old_phone"
    by blast
  have "edit_phone old_phone new_phone r =
          (Inr (), r\<lparr>phones := (phones r)[i := new_phone]\<rparr>)"
    using a q qe i(1) by (simp add: edit_phone_def Phone_def)
  with i show "\<exists>i < length (phones r).
          phones r ! i = old_phone \<and> (\<forall>j<i. phones r ! j \<noteq> old_phone) \<and>
          edit_phone old_phone new_phone r =
            (Inr (), r\<lparr>phones := (phones r)[i := new_phone]\<rparr>)"
    by blast
qed

lemma edit_phone_outcomes_example:
  "edit_phone ''0000000000'' ''0670000000''
      \<lparr>name = ''Ann'', phones = [''0931112233'', ''0501112233'', ''0931112233''],
        email = None, address = None, birthday = None\<rparr> =
     (Inl (ValueError ''Phone number 0000000000 not found''),
      \<lparr>name = ''Ann'', phones = [''0931112233'', ''0501112233'', ''0931112233''],
        email = None, address = None, birthday = None\<rparr>) \<and>
   edit_phone ''0501112233'' ''12''
      \<lparr>name = ''Ann'', phones = [''0931112233'', ''0501112233'', ''0931112233''],
        email = None, address = None, birthday = None\<rparr> =
     (Inl (ValueError ''New phone number must contain 10 digits. Use format like 0931112233.''),
      \<lparr>name = ''Ann'', phones = [''0931112233'', ''0501112233'', ''0931112233''],
        email = None, address = None, birthday = None\<rparr>) \<and>
   edit_phone ''0501112233'' ''0670000000''
      \<lparr>name = ''Ann'', phones = [''0931112233'', ''0501112233'', ''0931112233''],
        email = None, address = None, birthday = None\<rparr> =
     (Inr (), \<lparr>name = ''Ann'', phones = [''0931112233'', ''0670000000'', ''0931112233''],
        email = None, address = None, birthday = None\<rparr>)"
proof -
  let ?r = "\<lparr>name = ''Ann'', phones = [''0931112233'', ''0501112233'', ''0931112233''],
        email = None, address = None, birthday = None\<rparr>"
  have v: "Phone_validate ''0670000000''" "\<not> Phone_validate ''12''"
    by (simp_all add: Phone_validate_def str_isdigit_def isdigit_char_def)
  have 1: "''0000000000'' \<notin> set (phones ?r)" by simp
  have 2: "''0501112233'' \<in> set (phones ?r)" by simp
  have a: "edit_phone ''0000000000'' ''0670000000'' ?r =
      (Inl (ValueError ''Phone number 0000000000 not found''), ?r)"
    using 1 edit_phone_outcomes [of "''0000000000''" ?r "''0670000000''"] by simp
  have b: "edit_phone ''0501112233'' ''12'' ?r =
      (Inl (ValueError ''New phone number must contain 10 digits. Use format like 0931112233.''), ?r)"
    using 2 v edit_phone_outcomes [of "''0501112233''" ?r "''12''"] by blast
  from 2 v edit_phone_outcomes [of "''0501112233''" ?r "''0670000000''"]
  obtain i where i: "i < length (phones ?r)" "phones ?r ! i = ''0501112233''"
    and e: "edit_phone ''0501112233'' ''0670000000'' ?r =
       (Inr (), ?r\<lparr>phones := (phones ?r)[i := ''0670000000'']\<rparr>)"
    by blast
  from i have "i = 1"
    by (auto simp: less_Suc_eq numeral_3_eq_3 nth_Cons')
  with e have c: "edit_phone ''0501112233'' ''0670000000'' ?r =
       (Inr (), ?r\<lparr>phones := [''0931112233'', ''0670000000'', ''0931112233'']\<rparr>)"
    by simp
  from a b c show ?thesis by simp
qed

text \<open>For a new number of ten ASCII digits and for one of a wrong length that is what the
  specification asks for.\<close>

lemma edit_phone_ascii_phone:
  assumes "old_phone \<in> set (phones r)" and "ascii_phone new_phone"
  shows "\<exists>i < length (phones r).
          phones r ! i = old_phone \<and> (\<forall>j<i. phones r ! j \<noteq> old_phone) \<and>
          edit_phone old_phone new_phone r =
            (Inr (), r\<lparr>phones := (phones r)[i := new_phone]\<rparr>)"
  using assms edit_phone_outcomes [of old_phone r new_phone] ascii_phone_valid [of new_phone]
  by blast

lemma edit_phone_wrong_length:
  assumes "old_phone \<in> set (phones r)" and "length new_phone \<noteq> 10"
  shows "edit_phone old_phone new_phone r =
        (Inl (ValueError
           ''New phone number must contain 10 digits. Use format like 0931112233.''), r)"
proof -
  from assms(2) have "\<not> Phone_validate new_phone"
    by (simp add: Phone_validate_def)
  with assms(1) edit_phone_outcomes [of old_phone r new_phone] show ?thesis
    by blast
qed

text \<open>
  Claim C6 says that \<^verbatim>\<open>edit_phone(old, new)\<close> fails with the invalid-phone error, and leaves
  the phone list unchanged, whenever \<open>old\<close> is present and \<open>new\<close> is not a valid phone of
  ten digits. The code breaks this where \<^verbatim>\<open>Phone.validate\<close> is too lenient: with the phone
  \<^verbatim>\<open>0931112233\<close> present and ten characters U+00B2 as the new number, no error is raised
  and the superscripts replace the phone.
\<close>

theorem edit_phone_stores_superscript_digits:
  "edit_phone ''0931112233''
      [CHR 0xB2, CHR 0xB2, CHR 0xB2, CHR 0xB2, CHR 0xB2,
       CHR 0xB2, CHR 0xB2, CHR 0xB2, CHR 0xB2, CHR 0xB2]
      \<lparr>name = ''Ann'', phones = [''0931112233''], email = None, address = None,
        birthday = None\<rparr> =
     (Inr (),
      \<lparr>name = ''Ann'',
        phones = [[CHR 0xB2, CHR 0xB2, CHR 0xB2, CHR 0xB2, CHR 0xB2,
                   CHR 0xB2, CHR 0xB2, CHR 0xB2, CHR 0xB2, CHR 0xB2]],
        email = None, address = None, birthday = None\<rparr>) \<and>
   \<not> ascii_phone [CHR 0xB2, CHR 0xB2, CHR 0xB2, CHR 0xB2, CHR 0xB2,
                   CHR 0xB2, CHR 0xB2, CHR 0xB2, CHR 0xB2, CHR 0xB2]"
  by (simp add: edit_phone_def find_phone_def Phone_def Phone_validate_def str_isdigit_def
      isdigit_char_def ascii_phone_def ascii_digit_def)

section \<open>Names\<close>

text \<open>
  Claim C8, as stated, says that constructing a record rejects an empty or blank name.
  It fails: \<^verbatim>\<open>Name\<close> adds nothing to \<^verbatim>\<open>Field\<close>, so \<^verbatim>\<open>Record("")\<close> and \<^verbatim>\<open>Record(" ")\<close> are
  records whose names are the empty string and a single blank.
\<close>

theorem Record_accepts_empty_name:
  "name (Record_init []) = [] \<and> name (Record_init '' '') = '' '' \<and> str_strip '' '' = []"
  by (simp add: Record_init_def str_strip_def isspace_char_def)

text \<open>
  Claim C8, amended: constructing a record validates nothing. For every string,
  the empty and the blank ones included, \<^verbatim>\<open>Record(n)\<close> is a record whose name is that
  string, with no phones, email, address or birthday; a record added to the book is
  stored under that name.
\<close>

theorem Record_init_keeps_name:
  "Record_init n =
     \<lparr>name = n, phones = [], email = None, address = None, birthday = None\<rparr> \<and>
   book_find n (add_record (Record_init n) book) = Some (Record_init n)"
  by (simp add: Record_init_def add_record_def book_find_def update_conv')

section \<open>Birthdays: the argument check and the leap day\<close>

text \<open>
  Claim C9: \<^verbatim>\<open>get_upcoming_birthdays()\<close> returns what \<^verbatim>\<open>get_birthdays_in_days(7)\<close> returns,
  for every book and every day on which both are called.
\<close>

theorem upcoming_birthdays_is_seven_days:
  "get_upcoming_birthdays year_text today book = get_birthdays_in_days year_text today 7 book"
  by (simp add: get_upcoming_birthdays_def)

text \<open>
  Claim C7: for a negative number of days \<^verbatim>\<open>get_birthdays_in_days\<close> raises the
  \<^verbatim>\<open>ValueError\<close> of its first statement, whatever the book holds. The method assigns to
  nothing but its local variables, so the book after the call is the book before it.
\<close>

theorem negative_days_rejected:
  "days < 0 \<Longrightarrow>
     get_birthdays_in_days year_text today days book =
       Inl (ValueError ''Number of days cannot be negative.'')"
  by (simp add: get_birthdays_in_days_def)

theorem negative_days_rejected_witness:
  "(-1 :: int) < 0 \<and>
   get_birthdays_in_days year_padded \<lparr>year = 2023, month = 1, day = 1\<rparr> (-1)
     [(''Ann'', \<lparr>name = ''Ann'', phones = [], email = None, address = None,
                birthday = Some \<lparr>year = 2000, month = 2, day = 29\<rparr>\<rparr>)]
   = Inl (ValueError ''Number of days cannot be negative.'')"
  using negative_days_rejected [of "-1" year_padded] by simp

lemma replace_year_leap_day:
  "\<not> is_leap y \<Longrightarrow> month b = 2 \<Longrightarrow> day b = 29 \<Longrightarrow> \<exists>e. replace_year b y = Inl e"
  by (simp add: replace_year_def date_new_def days_in_month_def DAYS_IN_MONTH_def)

lemma birthday_step_leap_day:
  assumes "\<not> is_leap (year today)" "birthday r = Some b" "month b = 2" "day b = 29"
  shows "\<exists>e. birthday_step year_text today target r acc = Inl e"
proof -
  from replace_year_leap_day [OF assms(1,3,4)] obtain e where
    "replace_year b (year today) = Inl e" by blast
  with assms(2) show ?thesis
    by (simp add: birthday_step_def)
qed

lemma birthday_loop_leap_day:
  "\<not> is_leap (year today) \<Longrightarrow> r \<in> set rs \<Longrightarrow> birthday r = Some b \<Longrightarrow>
   month b = 2 \<Longrightarrow> day b = 29 \<Longrightarrow>
     \<exists>e. birthday_loop year_text today target rs acc = Inl e"
proof (induction rs arbitrary: acc)
  case Nil
  then show ?case by simp
next
  case (Cons x rs)
  show ?case
  proof (cases "birthday_step year_text today target x acc")
    case (Inl e)
    then show ?thesis by simp
  next
    case (Inr acc')
    have "x \<noteq> r"
    proof
      assume "x = r"
      with birthday_step_leap_day [OF Cons.prems(1,3,4,5), of year_text target acc] Inr
      show False by simp
    qed
    with Cons.prems(2) have "r \<in> set rs" by simp
    from Cons.IH [OF Cons.prems(1) this Cons.prems(3-5), of acc'] Inr
    show ?thesis by simp
  qed
qed

lemma leap_day_always_raises:
  assumes "\<not> is_leap (year today)" "r \<in> set (book_values book)" "birthday r = Some b"
    "month b = 2" "day b = 29"
  shows "\<exists>e. get_birthdays_in_days year_text today days book = Inl e"
proof (cases "days < 0")
  case True
  then show ?thesis by (simp add: get_birthdays_in_days_def)
next
  case False
  show ?thesis
  proof (cases "timedelta days")
    case (Inl e)
    with False show ?thesis by (simp add: get_birthdays_in_days_def)
  next
    case td: (Inr td)
    show ?thesis
    proof (cases "date_add today td")
      case (Inl e)
      with False td show ?thesis by (simp add: get_birthdays_in_days_def)
    next
      case (Inr target)
      from birthday_loop_leap_day [OF assms, of year_text target "[]"] obtain e where
        "birthday_loop year_text today target (book_values book) [] = Inl e" by blast
      with False td Inr show ?thesis by (simp add: get_birthdays_in_days_def)
    qed
  qed
qed

text \<open>
  Claim C2 says that a birthday on 29 February never makes \<^verbatim>\<open>get_birthdays_in_days\<close> fail
  in a year that is not a leap year. The code does fail there: on 1 January 2023, with
  one contact born on 29 February 2000, \<^verbatim>\<open>bday.replace(year=today.year)\<close> raises
  \<^verbatim>\<open>ValueError\<close> and no list is returned. By \<open>leap_day_always_raises\<close> the same happens
  for every number of days and every book that holds such a contact, in every year
  that is not a leap year.
\<close>

theorem leap_day_birthday_raises:
  "get_birthdays_in_days year_text \<lparr>year = 2023, month = 1, day = 1\<rparr> 0
     [(''Ann'', \<lparr>name = ''Ann'', phones = [], email = None, address = None,
                birthday = Some \<lparr>year = 2000, month = 2, day = 29\<rparr>\<rparr>)]
   = Inl (ValueError ''day is out of range for month'')"
  by code_simp

section \<open>Search\<close>

lemma phone_loop_ex: "phone_loop q ps = list_ex (str_contains q) ps"
  by (induction ps) auto

lemma search_loop_filter:
  "search_loop year_text (str_lower query) rs found =
     found @ filter (record_matches year_text query) rs"
proof (induction rs arbitrary: found)
  case Nil
  then show ?case by simp
next
  case (Cons r rs)
  then show ?case
    by (simp add: record_matches_def phone_loop_ex Let_def)
qed

lemma count_list_filter_le: "count_list (filter P xs) x \<le> count_list xs x"
  by (induction xs) auto

lemma search_example:
  "search year_text ''ANN''
     [(''Bob'', \<lparr>name = ''Bob'', phones = [''0501112233''], email = None,
                address = None, birthday = None\<rparr>),
      (''Ann'', \<lparr>name = ''Ann'', phones = [], email = Some ''ann@x.org'',
                address = Some ''12 Annex Road'', birthday = None\<rparr>)]
   = [\<lparr>name = ''Ann'', phones = [], email = Some ''ann@x.org'',
       address = Some ''12 Annex Road'', birthday = None\<rparr>]"
  by code_simp

text \<open>
  Claim C5: \<^verbatim>\<open>search(q)\<close> returns the records of the book that match the query in some
  field, each position of the book at most once however many of its fields match, in
  the order in which the book holds them: the result is the book's list of values with
  the records that match nowhere left out.
\<close>

theorem search_once_in_order:
  "search year_text query book = filter (record_matches year_text query) (book_values book) \<and>
   subseq (search year_text query book) (book_values book) \<and>
   count_list (search year_text query book) r \<le> count_list (book_values book) r"
  by (simp add: search_def search_loop_filter count_list_filter_le)

section \<open>Adding a contact that exists\<close>

lemma Phone_validate_nonempty: "Phone_validate p \<Longrightarrow> p \<noteq> []"
  by (auto simp: Phone_validate_def)

lemma update_present_keys:
  "map_of al k = Some v \<Longrightarrow> map fst (AList.update k v' al) = map fst al"
  by (simp add: update_keys map_of_eq_None_iff [symmetric])

text \<open>
  Claim C10: when the book holds a record under the name \<open>n\<close> and \<open>p\<close> is a valid phone,
  the command \<^verbatim>\<open>add contact n p\<close> answers \<^verbatim>\<open>Contact updated.\<close> and changes the book only in
  the record under \<open>n\<close>, which keeps its place, its name, email, address, birthday and
  earlier phones, and has \<open>p\<close> appended to its phones.
\<close>

theorem add_contact_existing:
  assumes "book_find n book = Some r" and "Phone_validate p"
  shows "add_contact (n # p # rest) book =
           (''Contact updated.'', AList.update n (r\<lparr>phones := phones r @ [p]\<rparr>) book) \<and>
         map fst (snd (add_contact (n # p # rest) book)) = map fst book \<and>
         book_find n (snd (add_contact (n # p # rest) book)) =
           Some (r\<lparr>phones := phones r @ [p]\<rparr>) \<and>
         (\<forall>k. k \<noteq> n \<longrightarrow>
            book_find k (snd (add_contact (n # p # rest) book)) = book_find k book)"
proof -
  have ne: "p \<noteq> []"
    using assms(2) by (rule Phone_validate_nonempty)
  have eq: "add_contact (n # p # rest) book =
           (''Contact updated.'', AList.update n (r\<lparr>phones := phones r @ [p]\<rparr>) book)"
    using assms ne
    by (simp add: add_contact_def add_contact_body_def add_phone_def Phone_def input_error_def)
  have keys: "map fst (AList.update n (r\<lparr>phones := phones r @ [p]\<rparr>) book) = map fst book"
    using assms(1) by (simp add: book_find_def update_present_keys)
  show ?thesis
    by (simp add: eq keys book_find_def update_conv')
qed

theorem add_contact_existing_witness:
  "book_find ''Ann'' [(''Ann'', \<lparr>name = ''Ann'', phones = [''0501112233''], email = Some ''ann@x.org'',
        address = None, birthday = Some \<lparr>year = 1990, month = 5, day = 17\<rparr>\<rparr>),
      (''Bob'', \<lparr>name = ''Bob'', phones = [], email = None, address = None, birthday = None\<rparr>)]
     = Some \<lparr>name = ''Ann'', phones = [''0501112233''], email = Some ''ann@x.org'',
        address = None, birthday = Some \<lparr>year = 1990, month = 5, day = 17\<rparr>\<rparr> \<and>
   Phone_validate ''0931112233'' \<and>
   add_contact [''Ann'', ''0931112233'']
     [(''Ann'', \<lparr>name = ''Ann'', phones = [''0501112233''], email = Some ''ann@x.org'',
        address = None, birthday = Some \<lparr>year = 1990, month = 5, day = 17\<rparr>\<rparr>),
      (''Bob'', \<lparr>name = ''Bob'', phones = [], email = None, address = None, birthday = None\<rparr>)]
   = (''Contact updated.'',
      [(''Ann'', \<lparr>name = ''Ann'', phones = [''0501112233'', ''0931112233''], email = Some ''ann@x.org'',
        address = None, birthday = Some \<lparr>year = 1990, month = 5, day = 17\<rparr>\<rparr>),
      (''Bob'', \<lparr>name = ''Bob'', phones = [], email = None, address = None, birthday = None\<rparr>)])"
proof -
  let ?a = "\<lparr>name = ''Ann'', phones = [''0501112233''], email = Some ''ann@x.org'',
        address = None, birthday = Some \<lparr>year = 1990, month = 5, day = 17\<rparr>\<rparr>"
  let ?b = "[(''Ann'', ?a),
      (''Bob'', \<lparr>name = ''Bob'', phones = [], email = None, address = None, birthday = None\<rparr>)]"
  have f: "book_find ''Ann'' ?b = Some ?a" by (simp add: book_find_def)
  have v: "Phone_validate ''0931112233''"
    by (simp add: Phone_validate_def str_isdigit_def isdigit_char_def)
  from add_contact_existing [OF f v, of "[]"] f v show ?thesis by simp
qed

section \<open>Field values are fixed points of their constructors\<close>

lemma lower_char_idem: "lower_char (lower_char c) = lower_char c"
  by (auto simp: lower_char_def Let_def)

lemma isspace_lower_char: "isspace_char (lower_char c) = isspace_char c"
  by (auto simp: lower_char_def isspace_char_def Let_def)

lemma str_lower_idem: "str_lower (str_lower s) = str_lower s"
  by (simp add: str_lower_def lower_char_idem)

lemma dropWhile_space_lower:
  "dropWhile isspace_char (map lower_char s) = map lower_char (dropWhile isspace_char s)"
  by (induction s) (auto simp: isspace_lower_char)

lemma str_strip_lower: "str_strip (str_lower s) = str_lower (str_strip s)"
  by (simp add: str_strip_def str_lower_def dropWhile_space_lower rev_map)

lemma dropWhile_fix: "dropWhile P xs = xs \<longleftrightarrow> xs = [] \<or> \<not> P (hd xs)"
  by (cases xs) (auto simp: dropWhile_eq_Cons_conv)

lemma dropWhile_rev_prefix:
  assumes "dropWhile P xs = xs"
  shows "dropWhile P (rev (dropWhile P (rev xs))) = rev (dropWhile P (rev xs))"
proof -
  let ?y = "rev (dropWhile P (rev xs))"
  have xs: "xs = ?y @ rev (takeWhile P (rev xs))"
    by (metis rev_append rev_rev_ident takeWhile_dropWhile_id)
  show ?thesis
  proof (cases "?y = []")
    case True
    show ?thesis unfolding True by simp
  next
    case False
    then have "hd ?y = hd xs" using xs by (metis hd_append2)
    moreover have "xs \<noteq> []" using False by auto
    ultimately have "\<not> P (hd ?y)" using assms by (simp add: dropWhile_fix)
    then show ?thesis by (simp add: dropWhile_fix)
  qed
qed

lemma str_strip_idem: "str_strip (str_strip s) = str_strip s"
proof -
  have "dropWhile isspace_char (str_strip s) = str_strip s"
    unfolding str_strip_def by (rule dropWhile_rev_prefix) simp
  then show ?thesis
    by (simp add: str_strip_def)
qed

lemma Email_idem: "Email raw = Inr e \<Longrightarrow> Email e = Inr e"
proof -
  assume a: "Email raw = Inr e"
  then have e: "e = str_lower (str_strip raw)" and v: "Email_validate e"
    by (auto simp: Email_def Let_def split: if_splits)
  have "str_lower (str_strip e) = e"
    by (simp add: e str_strip_lower [symmetric] str_lower_idem str_strip_idem)
  with v show ?thesis by (simp add: Email_def)
qed

lemma Email_nonempty: "Email e = Inr x \<Longrightarrow> x \<noteq> []"
  by (auto simp: Email_def Let_def Email_validate_def re_match_dollar_def fullmatch_def
      email_pattern_def Plus_def Chr_def split: if_splits)

lemma Address_validate_nonempty: "Address_validate a \<Longrightarrow> a \<noteq> []"
  by (auto simp: Address_validate_def str_strip_def)

section \<open>Printing and parsing a date\<close>

lemma decimal4: "0 \<le> (n::int) \<Longrightarrow> n < 10000 \<Longrightarrow>
   1000 * (n div 1000) + 100 * (n div 100 mod 10) + 10 * (n div 10 mod 10) + n mod 10 = n"
proof -
  have a: "n div 100 = (n div 10) div 10" "n div 1000 = ((n div 10) div 10) div 10"
    by (simp_all add: div_mult2_eq [symmetric])
  have "n = 10 * (n div 10) + n mod 10" by simp
  moreover have "n div 10 = 10 * (n div 10 div 10) + n div 10 mod 10" by simp
  moreover have "n div 10 div 10 = 10 * (n div 10 div 10 div 10) + n div 10 div 10 mod 10" by simp
  ultimately show ?thesis unfolding a by linarith
qed

lemma code_digit_char: "0 \<le> k \<Longrightarrow> k < 10 \<Longrightarrow> (of_char (digit_char k) :: nat) = 48 + nat k"
  by (simp add: digit_char_def)

lemma digit_val_digit_char: "0 \<le> k \<Longrightarrow> k < 10 \<Longrightarrow> digit_val (digit_char k) = k"
  by (simp add: digit_val_def code_digit_char)

lemma ascii_digit_digit_char: "0 \<le> k \<Longrightarrow> k < 10 \<Longrightarrow> ascii_digit (digit_char k)"
  by (simp add: ascii_digit_def code_digit_char)

lemma not_space_digit: "ascii_digit c \<Longrightarrow> \<not> isspace_char c"
  by (auto simp: ascii_digit_def isspace_char_def Let_def)

lemma str_strip_id: "s \<noteq> [] \<Longrightarrow> \<not> isspace_char (hd s) \<Longrightarrow> \<not> isspace_char (last s) \<Longrightarrow> str_strip s = s"
proof -
  assume a: "s \<noteq> []" "\<not> isspace_char (hd s)" "\<not> isspace_char (last s)"
  then have 1: "dropWhile isspace_char s = s"
    by (cases s) auto
  from a have "dropWhile isspace_char (rev s) = rev s"
    by (cases "rev s") (auto simp: last_rev [symmetric] simp del: last_rev)
  with 1 show ?thesis by (simp add: str_strip_def)
qed

lemma py_int_digits2: "ascii_digit a \<Longrightarrow> ascii_digit b \<Longrightarrow> py_int [a, b] = 10 * digit_val a + digit_val b"
  by (simp add: py_int_def str_strip_id not_space_digit)

lemma py_int_digits4: "ascii_digit a \<Longrightarrow> ascii_digit b \<Longrightarrow> ascii_digit c \<Longrightarrow> ascii_digit d \<Longrightarrow>
  py_int [a, b, c, d] = 1000 * digit_val a + 100 * digit_val b + 10 * digit_val c + digit_val d"
  by (simp add: py_int_def str_strip_id not_space_digit)

lemma py_int_pad2: "0 \<le> n \<Longrightarrow> n < 100 \<Longrightarrow> py_int (pad2 n) = n"
  by (simp add: pad2_def py_int_digits2 ascii_digit_digit_char digit_val_digit_char)

lemma py_int_pad4: "0 \<le> n \<Longrightarrow> n < 10000 \<Longrightarrow> py_int (pad4 n) = n"
  by (simp add: pad4_def py_int_digits4 ascii_digit_digit_char digit_val_digit_char decimal4)

lemma char_of_eq_code: "(char_of (k::nat) = c) = (k mod 256 = of_char c)"
  by (simp add: chr_eq_code [of "char_of k" c])

lemma days_enum: "1 \<le> (n::int) \<Longrightarrow> n \<le> 31 \<Longrightarrow>
  n \<in> {1,2,3,4,5,6,7,8,9,10,11,12,13,14,15,16,17,18,19,20,21,22,23,24,25,26,27,28,29,30,31}"
  by simp arith

lemma rx_d_pad2:
  assumes "1 \<le> n" "n \<le> 31"
  shows "rx_d (pad2 n @ CHR ''.'' # t) =
     (pad2 n, CHR ''.'' # t) #
     (if 10 \<le> n then [([digit_char (n div 10 mod 10)], digit_char (n mod 10) # CHR ''.'' # t)] else [])"
  using days_enum [OF assms]
  by (elim insertE emptyE; simp add: rx_d_def alt1_def alt2_def pad2_def digit_char_def char_in_def less_eq_char_def ascii_digit_def char_of_eq_code)

lemma months_enum: "1 \<le> (n::int) \<Longrightarrow> n \<le> 12 \<Longrightarrow> n \<in> {1,2,3,4,5,6,7,8,9,10,11,12}"
  by simp arith

lemma rx_m_pad2:
  assumes "1 \<le> n" "n \<le> 12"
  shows "rx_m (pad2 n @ CHR ''.'' # t) =
     (pad2 n, CHR ''.'' # t) #
     (if 10 \<le> n then [([digit_char (n div 10 mod 10)], digit_char (n mod 10) # CHR ''.'' # t)] else [])"
  using months_enum [OF assms]
  by (elim insertE emptyE; simp add: rx_m_def alt1_def alt2_def pad2_def digit_char_def char_in_def less_eq_char_def ascii_digit_def char_of_eq_code)

lemma lit_dot: "lit CHR ''.'' (CHR ''.'' # t) = [t]"
  by (simp add: lit_def)

lemma lit_dot_digit: "0 \<le> k \<Longrightarrow> k < 10 \<Longrightarrow> lit CHR ''.'' (digit_char k # t) = []"
  by (simp add: lit_def digit_char_def char_of_eq_code)

lemma rx_Y_pad4: "0 \<le> y \<Longrightarrow> y < 10000 \<Longrightarrow> rx_Y (pad4 y) = [(pad4 y, [])]"
  by (simp add: rx_Y_def pad4_def ascii_digit_digit_char)

lemma days_in_month_le: "1 \<le> m \<Longrightarrow> m \<le> 12 \<Longrightarrow> days_in_month y m \<le> 31"
  using months_enum [of m]
  by (auto simp: days_in_month_def DAYS_IN_MONTH_def)

lemma strptime_matches_strftime:
  assumes "valid_date d"
    and "year_text (year d) = pad4 (year d)"
  shows "strptime_matches (strftime year_text d) =
           [(pad2 (day d), pad2 (month d), pad4 (year d), [])]"
proof -
  from assms(1) have m: "1 \<le> month d" "month d \<le> 12" and y: "0 \<le> year d" "year d < 10000"
    and d1: "1 \<le> day d" and d2: "day d \<le> days_in_month (year d) (month d)"
    by (simp_all add: valid_date_def)
  from d2 days_in_month_le [OF m, of "year d"] have d3: "day d \<le> 31" by simp
  show ?thesis
    by (simp add: strptime_matches_def strftime_def assms(2) rx_d_pad2 [OF d1 d3]
        rx_m_pad2 [OF m] rx_Y_pad4 [OF y] lit_dot lit_dot_digit)
qed

lemma date_new_valid: "valid_date d \<Longrightarrow> date_new (year d) (month d) (day d) = Inr d"
  by (simp add: date_new_def valid_date_def)

lemma date_new_Inr: "date_new y m d = Inr x \<Longrightarrow> valid_date x"
  by (auto simp: date_new_def valid_date_def split: if_splits)

lemma strptime_strftime:
  assumes "valid_date d" and "year_text (year d) = pad4 (year d)"
  shows "strptime (strftime year_text d) = Inr d"
proof -
  from assms(1) have m: "0 \<le> month d" "month d < 100" and y: "0 \<le> year d" "year d < 10000"
    and d1: "1 \<le> day d" and d2: "day d \<le> days_in_month (year d) (month d)"
    and m': "1 \<le> month d" "month d \<le> 12"
    by (simp_all add: valid_date_def)
  from d2 days_in_month_le [OF m', of "year d"] d1 have d3: "0 \<le> day d" "day d < 100" by simp_all
  show ?thesis
    by (simp add: strptime_def strptime_matches_strftime [of d year_text, OF assms] py_int_pad2 [OF m]
        py_int_pad2 [OF d3] py_int_pad4 [OF y] date_new_valid [OF assms(1)])
qed

lemma Birthday_strftime:
  "valid_date d \<Longrightarrow> year_text (year d) = pad4 (year d) \<Longrightarrow> Birthday (strftime year_text d) = Inr d"
  by (simp add: Birthday_def strptime_strftime)

lemma Birthday_valid: "Birthday raw = Inr d \<Longrightarrow> valid_date d"
  by (auto simp: Birthday_def strptime_def dest: date_new_Inr split: sum.splits list.splits if_splits)

lemma strftime_nonempty: "strftime year_text d \<noteq> []"
  by (simp add: strftime_def pad2_def)

section \<open>The portable form and back\<close>

lemma year_unpadded_from_1000:
  assumes "1000 \<le> y" "y \<le> 9999"
  shows "year_unpadded y = pad4 y"
proof -
  from assms have "1 \<le> y div 1000" "y div 1000 < 10" by simp_all
  then show ?thesis
    by (simp add: year_unpadded_def pad4_def digit_char_def char_of_eq_code)
qed

lemma add_phones_valid:
  "list_all Phone_validate ps \<Longrightarrow> add_phones ps r = (Inr (), r\<lparr>phones := phones r @ ps\<rparr>)"
  by (induction ps arbitrary: r) (simp_all add: add_phone_def Phone_def)

lemma from_dict_to_dict:
  assumes ok: "record_ok r"
    and yt: "\<And>b. birthday r = Some b \<Longrightarrow> year_text (year b) = pad4 (year b)"
  shows "from_dict (to_dict year_text r) = Inr r"
proof -
  let ?r1 = "(Record_init (name r))\<lparr>phones := phones r\<rparr>"
  let ?r2 = "?r1\<lparr>email := email r\<rparr>"
  let ?r3 = "?r2\<lparr>address := address r\<rparr>"
  from ok have "list_all Phone_validate (phones r)"
    by (simp add: record_ok_def)
  then have 1: "add_phones (phones r) (Record_init (name r)) = (Inr (), ?r1)"
    by (simp add: add_phones_valid Record_init_def)
  have 2: "if_present (email r) add_email ?r1 = (Inr (), ?r2)"
  proof (cases "email r")
    case None
    then show ?thesis by (simp add: if_present_def Record_init_def)
  next
    case (Some e)
    with ok have "Email e = Inr e" by (simp add: record_ok_def)
    with Some show ?thesis
      using Email_nonempty [of e e] by (simp add: if_present_def add_email_def)
  qed
  have 3: "if_present (address r) add_address ?r2 = (Inr (), ?r3)"
  proof (cases "address r")
    case None
    then show ?thesis by (simp add: if_present_def Record_init_def)
  next
    case (Some a)
    with ok have "Address_validate a" by (simp add: record_ok_def)
    with Some show ?thesis
      using Address_validate_nonempty [of a] by (simp add: if_present_def add_address_def Address_def)
  qed
  have 4: "if_present (map_option (strftime year_text) (birthday r)) add_birthday ?r3 = (Inr (), r)"
  proof (cases "birthday r")
    case None
    then show ?thesis by (simp add: if_present_def Record_init_def)
  next
    case (Some b)
    with ok have "valid_date b" by (simp add: record_ok_def)
    then have "Birthday (strftime year_text b) = Inr b"
      using yt [OF Some] by (rule Birthday_strftime)
    with Some show ?thesis
      by (simp add: if_present_def add_birthday_def strftime_nonempty Record_init_def)
  qed
  show ?thesis
    by (simp add: from_dict_def to_dict_def 1 2 3 4)
qed

lemma Record_init_ok: "record_ok (Record_init n)"
  by (simp add: record_ok_def Record_init_def)

lemma add_phone_ok: "record_ok r \<Longrightarrow> record_ok (snd (add_phone p r))"
  by (auto simp: record_ok_def add_phone_def Phone_def)

lemma remove_phone_ok: "record_ok r \<Longrightarrow> record_ok (snd (remove_phone p r))"
  by (auto simp: record_ok_def remove_phone_def list_all_iff split: option.splits
      dest: notin_set_remove1)

lemma edit_phone_ok: "record_ok r \<Longrightarrow> record_ok (snd (edit_phone p q r))"
  by (auto simp: record_ok_def edit_phone_def Phone_def list_all_iff split: option.splits
      dest!: set_update_subset_insert [THEN subsetD])

lemma add_email_ok: "record_ok r \<Longrightarrow> record_ok (snd (add_email v r))"
  by (auto simp: record_ok_def add_email_def Email_idem split: sum.splits)

lemma edit_email_ok: "record_ok r \<Longrightarrow> record_ok (snd (edit_email v r))"
  by (auto simp: record_ok_def edit_email_def Email_idem split: sum.splits)

lemma add_address_ok: "record_ok r \<Longrightarrow> record_ok (snd (add_address v r))"
  by (auto simp: record_ok_def add_address_def Address_def)

lemma edit_address_ok: "record_ok r \<Longrightarrow> record_ok (snd (edit_address v r))"
  by (auto simp: record_ok_def edit_address_def Address_def)

lemma add_birthday_ok: "record_ok r \<Longrightarrow> record_ok (snd (add_birthday v r))"
  by (auto simp: record_ok_def add_birthday_def Birthday_valid split: sum.splits)

text \<open>
  Claim C3 says that \<^verbatim>\<open>Record.from_dict(record.to_dict())\<close> succeeds and gives back the
  record, for every record. By \<open>from_dict_to_dict\<close> this holds whenever the year of the
  birthday is printed with four digits, which is every year from 1000 on and every year
  where \<^verbatim>\<open>%Y\<close> is zero-padded. Where \<^verbatim>\<open>%Y\<close> is not padded the code breaks the claim: the
  command \<^verbatim>\<open>add birthday Ann 01.01.0999\<close> stores the year 999, \<^verbatim>\<open>to_dict\<close> writes it as
  \<^verbatim>\<open>01.01.999\<close>, and \<^verbatim>\<open>from_dict\<close> raises on that text.
\<close>

theorem round_trip_fails_before_year_1000:
  "add_birthday ''01.01.0999'' (Record_init ''Ann'') =
     (Inr (), \<lparr>name = ''Ann'', phones = [], email = None, address = None,
               birthday = Some \<lparr>year = 999, month = 1, day = 1\<rparr>\<rparr>) \<and>
   d_birthday (to_dict year_unpadded
       \<lparr>name = ''Ann'', phones = [], email = None, address = None,
         birthday = Some \<lparr>year = 999, month = 1, day = 1\<rparr>\<rparr>) = Some ''01.01.999'' \<and>
   from_dict (to_dict year_unpadded
       \<lparr>name = ''Ann'', phones = [], email = None, address = None,
         birthday = Some \<lparr>year = 999, month = 1, day = 1\<rparr>\<rparr>)
     = Inl (ValueError ''Invalid date format. Use DD.MM.YYYY'')"
  by code_simp

section \<open>Birthdays in a number of days\<close>

lemma replace_year_Inr:
  "replace_year b y = Inr d \<Longrightarrow> d = \<lparr>year = y, month = month b, day = day b\<rparr>"
  by (auto simp: replace_year_def date_new_def split: if_splits)

lemma birthday_step_Inr:
  assumes "birthday_step year_text today target r acc = Inr acc'"
  shows "acc' = acc \<or> (\<exists>e. acc' = acc @ [e] \<and> entry_for year_text today target [r] e)"
proof (cases "birthday r")
  case None
  with assms show ?thesis by (simp add: birthday_step_def)
next
  case (Some b)
  from assms Some obtain d0 where d0: "replace_year b (year today) = Inr d0"
    by (auto simp: birthday_step_def split: sum.splits)
  then have d0e: "d0 = \<lparr>year = year today, month = month b, day = day b\<rparr>"
    by (rule replace_year_Inr)
  from assms Some d0 obtain d where
    d: "(if date_less d0 today then replace_year d0 (year today + 1) else Inr d0) = Inr d"
    by (auto simp: birthday_step_def split: sum.splits)
  have occ: "d = birthday_occurrence today b"
  proof (cases "date_less d0 today")
    case True
    with d have "replace_year d0 (year today + 1) = Inr d" by simp
    then have "d = \<lparr>year = year today + 1, month = month d0, day = day d0\<rparr>"
      by (rule replace_year_Inr)
    with True d0e show ?thesis by (simp add: birthday_occurrence_def)
  next
    case False
    with d d0e show ?thesis by (simp add: birthday_occurrence_def)
  qed
  show ?thesis
  proof (cases "d = target")
    case False
    with assms Some d0 d show ?thesis
      by (simp add: birthday_step_def)
  next
    case True
    with assms Some d0 d obtain c where c: "congratulation target = Inr c"
      and a: "acc' = acc @ [\<lparr>entry_name = name r, congratulation_date = strftime year_text c\<rparr>]"
      by (auto simp: birthday_step_def congratulation_def Let_def split: sum.splits if_splits)
    have "entry_for year_text today target [r]
            \<lparr>entry_name = name r, congratulation_date = strftime year_text c\<rparr>"
      using Some occ True c by (simp add: entry_for_def)
    with a show ?thesis by blast
  qed
qed

lemma entry_for_mono:
  "entry_for year_text today target rs e \<Longrightarrow> set rs \<subseteq> set rs' \<Longrightarrow> entry_for year_text today target rs' e"
  by (auto simp: entry_for_def)

lemma birthday_loop_Inr:
  "birthday_loop year_text today target rs acc = Inr res \<Longrightarrow>
     \<exists>new. res = acc @ new \<and> (\<forall>e\<in>set new. entry_for year_text today target rs e)"
proof (induction rs arbitrary: acc)
  case Nil
  then show ?case by simp
next
  case (Cons r rs)
  from Cons.prems obtain acc' where
    s: "birthday_step year_text today target r acc = Inr acc'"
    and l: "birthday_loop year_text today target rs acc' = Inr res"
    by (auto split: sum.splits)
  from Cons.IH [OF l] obtain new where
    new: "res = acc' @ new" "\<forall>e\<in>set new. entry_for year_text today target rs e"
    by blast
  then have new': "\<forall>e\<in>set new. entry_for year_text today target (r # rs) e"
    by (auto intro: entry_for_mono)
  from birthday_step_Inr [OF s] show ?case
  proof
    assume "acc' = acc"
    with new(1) new' show ?thesis by blast
  next
    assume "\<exists>e. acc' = acc @ [e] \<and> entry_for year_text today target [r] e"
    then obtain e where e: "acc' = acc @ [e]" "entry_for year_text today target [r] e"
      by blast
    then have "entry_for year_text today target (r # rs) e"
      by (auto intro: entry_for_mono)
    with new' have "\<forall>x\<in>set (e # new). entry_for year_text today target (r # rs) x"
      by simp
    moreover have "res = acc @ (e # new)" using new(1) e(1) by simp
    ultimately show ?thesis by blast
  qed
qed

text \<open>
  Claim C1: when \<^verbatim>\<open>get_birthdays_in_days(n)\<close> with \<open>n \<ge> 0\<close> returns, the names of the result
  are in ascending order of their code points, and every entry belongs to a record of
  the book with a birthday whose occurrence (this year's, or next year's when this
  year's is past) is exactly today plus \<open>n\<close> days; its congratulation date is that
  occurrence, two days later when it is a Saturday and one day later when it is a
  Sunday, as \<^verbatim>\<open>DD.MM.YYYY\<close>. The records are only read: the shift is applied to a local
  date, and the birthday a record stores stays what it was.
\<close>

theorem birthdays_in_days_entries:
  assumes "0 \<le> days"
    and "get_birthdays_in_days year_text today days book = Inr result"
  shows "sorted (map entry_name result) \<and>
    (\<exists>target. date_add today days = Inr target \<and>
       (\<forall>e\<in>set result. \<exists>r\<in>set (book_values book). \<exists>b c.
          birthday r = Some b \<and> entry_name e = name r \<and>
          birthday_occurrence today b = target \<and>
          congratulation target = Inr c \<and>
          congratulation_date e = strftime year_text c))"
proof -
  from assms obtain target res where
    t: "date_add today days = Inr target"
    and l: "birthday_loop year_text today target (book_values book) [] = Inr res"
    and r: "result = sort_key entry_name res"
    by (auto simp: get_birthdays_in_days_def timedelta_def split: sum.splits if_splits)
  from birthday_loop_Inr [OF l] have
    "\<forall>e\<in>set res. entry_for year_text today target (book_values book) e"
    by simp
  then have "\<forall>e\<in>set result. entry_for year_text today target (book_values book) e"
    by (simp add: r)
  moreover have "sorted (map entry_name result)"
    by (simp add: r)
  ultimately show ?thesis
    using t unfolding entry_for_def by blast
qed

theorem birthdays_in_days_entries_witness:
  "(0::int) \<le> 3 \<and>
   get_birthdays_in_days year_padded \<lparr>year = 2026, month = 11, day = 4\<rparr> 3
     [(''bob'', \<lparr>name = ''bob'', phones = [], email = None, address = None,
                birthday = Some \<lparr>year = 1990, month = 11, day = 7\<rparr>\<rparr>),
      (''Ann'', \<lparr>name = ''Ann'', phones = [], email = None, address = None,
                birthday = Some \<lparr>year = 2001, month = 11, day = 8\<rparr>\<rparr>),
      (''Zed'', \<lparr>name = ''Zed'', phones = [], email = None, address = None,
                birthday = Some \<lparr>year = 2000, month = 11, day = 7\<rparr>\<rparr>)]
   = Inr [\<lparr>entry_name = ''Zed'', congratulation_date = ''09.11.2026''\<rparr>,
          \<lparr>entry_name = ''bob'', congratulation_date = ''09.11.2026''\<rparr>] \<and>
   sorted (map entry_name
         [\<lparr>entry_name = ''Zed'', congratulation_date = ''09.11.2026''\<rparr>,
          \<lparr>entry_name = ''bob'', congratulation_date = ''09.11.2026''\<rparr>]) \<and>
   weekday \<lparr>year = 2026, month = 11, day = 7\<rparr> = 5"
proof -
  have h1: "(0::int) \<le> 3" by simp
  have h2: "get_birthdays_in_days year_padded \<lparr>year = 2026, month = 11, day = 4\<rparr> 3
     [(''bob'', \<lparr>name = ''bob'', phones = [], email = None, address = None,
                birthday = Some \<lparr>year = 1990, month = 11, day = 7\<rparr>\<rparr>),
      (''Ann'', \<lparr>name = ''Ann'', phones = [], email = None, address = None,
                birthday = Some \<lparr>year = 2001, month = 11, day = 8\<rparr>\<rparr>),
      (''Zed'', \<lparr>name = ''Zed'', phones = [], email = None, address = None,
                birthday = Some \<lparr>year = 2000, month = 11, day = 7\<rparr>\<rparr>)]
   = Inr [\<lparr>entry_name = ''Zed'', congratulation_date = ''09.11.2026''\<rparr>,
          \<lparr>entry_name = ''bob'', congratulation_date = ''09.11.2026''\<rparr>]"
    by code_simp
  have h3: "weekday \<lparr>year = 2026, month = 11, day = 7\<rparr> = 5"
    by code_simp
  from birthdays_in_days_entries [OF h1 h2] h1 h2 h3 show ?thesis
    by blast
qed

end
